theory Spec2Isabelle
  imports Main
begin

section \<open>The run supervisor: \<open>CommandOnEndPlugin\<close>\<close>

text \<open>
  \<open>CommandOnEndPlugin(watching, watchCommand)\<close> closes over three variables
  (\<open>isFirstBuild\<close>, \<open>currentProcess\<close>, \<open>restartTimeout\<close>) and registers one \<open>onEnd\<close>
  callback. The callback talks to two things outside itself: the event loop (\<open>setTimeout\<close>,
  \<open>clearTimeout\<close>) and the operating system (\<open>execa\<close>, \<open>cancel\<close>). Both are made explicit
  here, as fields of the state next to the closure variables: the pending timers, the
  processes that were started and have not exited (\<open>live\<close>), and the handles on which
  \<open>cancel()\<close> has been called (\<open>signalled\<close>).

  A process handle and a timer handle are natural numbers drawn from one counter. A pending
  timer is its handle, its due time in milliseconds and the command its callback captured.
  \<open>cancel()\<close> only sends the signal (to the shell, under \<open>shell: true\<close>) and nothing in the
  source waits for the exit: a cancelled process stays live until the event of its exit.
\<close>

datatype error =
    NoStartCommandFound
  | InvalidArgumentError
  | AssertionError
  | TypeError
  | HostError string

record watch_session =
  isFirstBuild :: bool
  currentProcess :: "nat option"
  restartTimeout :: "nat option"
  now :: nat
  timers :: "(nat \<times> nat \<times> string) list"
  live :: "nat list"
  signalled :: "nat list"
  spawned :: "(nat \<times> string) list"
  fresh :: nat
  logs :: "string list"
  rejected :: "error list"

definition initial :: watch_session where
  "initial = \<lparr> isFirstBuild = True, currentProcess = None, restartTimeout = None,
     now = 0, timers = [], live = [], signalled = [], spawned = [], fresh = 0, logs = [], rejected = [] \<rparr>"

definition console_log :: "string \<Rightarrow> watch_session \<Rightarrow> watch_session" where
  "console_log msg s = s\<lparr>logs := logs s @ [msg]\<rparr>"

definition pathExistsSync :: "string list \<Rightarrow> string \<Rightarrow> bool" where
  \<comment> \<open>the working directory is the list of the file names present in it\<close>
  "pathExistsSync fs name = (name \<in> set fs)"

definition defaultStartCommand :: "string list \<Rightarrow> error + string" where
  \<comment> \<open>the arrow function of lines 110-118\<close>
  "defaultStartCommand fs =
     (if pathExistsSync fs ''package-lock.json'' then Inr ''npm start''
      else if pathExistsSync fs ''yarn.lock'' then Inr ''yarn start''
      else if pathExistsSync fs ''pnpm-lock.yaml'' then Inr ''pnpm start''
      else if pathExistsSync fs ''bun.lockb'' then Inr ''bun start''
      else if pathExistsSync fs ''bun.lock'' then Inr ''bun start''
      else Inl NoStartCommandFound)"

definition cancel :: "nat \<Rightarrow> watch_session \<Rightarrow> watch_session" where
  \<comment> \<open>\<open>currentProcess.cancel()\<close>: the signal is sent, the process is still there\<close>
  "cancel p s = s\<lparr>signalled := signalled s @ [p]\<rparr>"

definition clearTimeout :: "nat \<Rightarrow> watch_session \<Rightarrow> watch_session" where
  "clearTimeout h s = s\<lparr>timers := filter (\<lambda>t. fst t \<noteq> h) (timers s)\<rparr>"

definition setTimeout :: "string \<Rightarrow> nat \<Rightarrow> watch_session \<Rightarrow> watch_session" where
  \<comment> \<open>\<open>restartTimeout = setTimeout(() => ..., delay)\<close>, the callback capturing \<open>cmd\<close>\<close>
  "setTimeout cmd delay s =
     s\<lparr>timers := timers s @ [(fresh s, now s + delay, cmd)],
       restartTimeout := Some (fresh s),
       fresh := Suc (fresh s)\<rparr>"

definition restart :: "string \<Rightarrow> watch_session \<Rightarrow> watch_session" where
  \<comment> \<open>the timer callback of lines 126-133\<close>
  "restart cmd s =
     (let s1 = console_log (''[watch] running command: '' @ cmd) s
      in s1\<lparr>currentProcess := Some (fresh s1),
             live := fresh s1 # live s1,
             spawned := spawned s1 @ [(fresh s1, cmd)],
             fresh := Suc (fresh s1)\<rparr>)"

definition resolveCommand :: "string option \<Rightarrow> string list \<Rightarrow> error + string" where
  \<comment> \<open>\<open>watchCommand || (() => ...)()\<close>: an absent or empty command is falsy\<close>
  "resolveCommand watchCommand fs =
     (case watchCommand of
        None \<Rightarrow> defaultStartCommand fs
      | Some c \<Rightarrow> if c \<noteq> [] then Inr c else defaultStartCommand fs)"

definition stopPrevious :: "watch_session \<Rightarrow> watch_session" where
  \<comment> \<open>lines 104-108\<close>
  "stopPrevious s =
     (case currentProcess s of
        None \<Rightarrow> s
      | Some p \<Rightarrow>
          (cancel p (console_log ''[watch] stopping previous process...'' s))
            \<lparr>currentProcess := None\<rparr>)"

definition reschedule :: "string \<Rightarrow> watch_session \<Rightarrow> watch_session" where
  \<comment> \<open>lines 120-133: a \<open>Timeout\<close> object is truthy, so a timer that was ever set is cleared\<close>
  "reschedule cmd s =
     (let s1 = (case restartTimeout s of
                  None \<Rightarrow> s
                | Some h \<Rightarrow> clearTimeout h s);
          s2 = console_log ''[watch] debouncing command for 1.5 seconds...'' s1
      in setTimeout cmd 1500 s2)"

definition onEnd ::
  "bool \<Rightarrow> string option \<Rightarrow> string list \<Rightarrow> nat \<Rightarrow> watch_session \<Rightarrow> (error + unit) \<times> watch_session"
where
  \<comment> \<open>the \<open>build.onEnd\<close> callback of lines 93-134; \<open>nerrors\<close> is \<open>result.errors.length\<close>\<close>
  "onEnd watching watchCommand fs nerrors s =
     (if \<not> watching \<or> nerrors \<noteq> 0 then (Inr (), s)
      else if isFirstBuild s then (Inr (), s\<lparr>isFirstBuild := False\<rparr>)
      else if watchCommand = Some '''' then
        (Inr (), console_log ''[watch] no command provided, skipping'' s)
      else
        case resolveCommand watchCommand fs of
          Inl e \<Rightarrow> (Inl e, stopPrevious s)
        | Inr cmd \<Rightarrow> (Inr (), reschedule cmd (stopPrevious s)))"

text \<open>
  The event loop. Time passes in \<open>elapse\<close>: every timer that is due by the new time fires,
  in the order in which the timers were set (all delays are the same 1500 ms, so this is
  the order of their due times). A process that exits by itself leaves the live list; the
  \<open>catch\<close> handler of line 129 logs its failure unless the process had been cancelled.
\<close>

definition elapse :: "nat \<Rightarrow> watch_session \<Rightarrow> watch_session" where
  "elapse d s =
     (let t = now s + d;
          due = filter (\<lambda>(h, at, cmd). at \<le> t) (timers s);
          later = filter (\<lambda>(h, at, cmd). \<not> at \<le> t) (timers s)
      in fold (\<lambda>(h, at, cmd). restart cmd) due (s\<lparr>now := t, timers := later\<rparr>))"

definition processExit :: "nat \<Rightarrow> string option \<Rightarrow> watch_session \<Rightarrow> watch_session" where
  \<comment> \<open>the process ends; \<open>failure\<close> is the message of the rejection that the \<open>catch\<close>
      handler of lines 129-132 receives, which it logs unless \<open>error.isCanceled\<close>\<close>
  "processExit p failure s =
     (if p \<in> set (live s) then
        (case failure of
           None \<Rightarrow> s\<lparr>live := removeAll p (live s)\<rparr>
         | Some msg \<Rightarrow>
             (if p \<in> set (signalled s) then s
              else console_log (''[watch] command execution error: '' @ msg) s)
               \<lparr>live := removeAll p (live s)\<rparr>)
      else s)"

datatype event =
    BuildEnd nat "string list"
  | Elapse nat
  | ProcessExit nat "string option"

text \<open>
  The engine calls the hook once per completed build, with the error count of that build
  and the working directory as it is then. A hook that throws rejects its promise; the
  engine reports the rejection (\<open>rejected\<close>) and goes on watching.
\<close>

fun step :: "bool \<Rightarrow> string option \<Rightarrow> event \<Rightarrow> watch_session \<Rightarrow> watch_session" where
  "step watching watchCommand (BuildEnd nerrors fs) s =
     (case onEnd watching watchCommand fs nerrors s of
        (Inl e, s') \<Rightarrow> s'\<lparr>rejected := rejected s' @ [e]\<rparr>
      | (Inr u, s') \<Rightarrow> s')"
| "step watching watchCommand (Elapse d) s = elapse d s"
| "step watching watchCommand (ProcessExit p failure) s = processExit p failure s"

fun run :: "bool \<Rightarrow> string option \<Rightarrow> event list \<Rightarrow> watch_session \<Rightarrow> watch_session" where
  "run watching watchCommand [] s = s"
| "run watching watchCommand (ev # evs) s =
     run watching watchCommand evs (step watching watchCommand ev s)"

text \<open>
  The processes that were started and on which \<open>cancel()\<close> has not been called, and the
  shape every session of the supervisor keeps: at most one timer is pending, it is the one
  \<open>restartTimeout\<close> refers to, and it was set when \<open>currentProcess\<close> was null; the only
  process not yet cancelled is the one \<open>currentProcess\<close> refers to; handles are fresh.
\<close>

definition uncancelled :: "watch_session \<Rightarrow> nat list" where
  "uncancelled s = filter (\<lambda>p. p \<notin> set (signalled s)) (map fst (spawned s))"

definition supervised :: "watch_session \<Rightarrow> bool" where
  "supervised s =
     ((case timers s of
         [] \<Rightarrow> True
       | [t] \<Rightarrow> restartTimeout s = Some (fst t) \<and> currentProcess s = None
       | t # t' # ts \<Rightarrow> False)
      \<and> (case currentProcess s of
           None \<Rightarrow> uncancelled s = []
         | Some p \<Rightarrow> uncancelled s = [p])
      \<and> list_all (\<lambda>p. p < fresh s) (signalled s)
      \<and> list_all (\<lambda>p. p < fresh s) (map fst (spawned s)))"

section \<open>JavaScript values\<close>

text \<open>
  \<open>build\<close> receives \<open>options: Record<string, any>\<close> and spreads the unchecked default
  export of the user's \<open>sern.build.js\<close> over its own object, so the values it handles are
  modelled as JavaScript values. An object is a map from property names to values (the
  order of the properties is never observed by \<open>build\<close>). Numbers are integers here, and a
  string is a list of bytes.
\<close>

datatype jsval =
    JUndefined
  | JNull
  | JBool bool
  | JNum int
  | JStr string
  | JArr "jsval list"
  | JObj "string \<Rightarrow> jsval option"

fun truthy :: "jsval \<Rightarrow> bool" where
  "truthy JUndefined = False"
| "truthy JNull = False"
| "truthy (JBool b) = b"
| "truthy (JNum n) = (n \<noteq> 0)"
| "truthy (JStr s) = (s \<noteq> [])"
| "truthy (JArr xs) = True"
| "truthy (JObj m) = True"

fun nullish :: "jsval \<Rightarrow> bool" where
  "nullish JUndefined = True"
| "nullish JNull = True"
| "nullish v = False"

definition coalesce :: "jsval \<Rightarrow> jsval \<Rightarrow> jsval" where
  \<comment> \<open>\<open>a ?? b\<close>\<close>
  "coalesce a b = (if nullish a then b else a)"

definition getProp :: "(string \<Rightarrow> jsval option) \<Rightarrow> string \<Rightarrow> jsval" where
  \<comment> \<open>\<open>o.k\<close> on an object: a missing property reads as \<open>undefined\<close>\<close>
  "getProp m k = (case m k of None \<Rightarrow> JUndefined | Some v \<Rightarrow> v)"

fun readProp :: "jsval \<Rightarrow> string \<Rightarrow> jsval" where
  \<comment> \<open>\<open>v.k\<close> on a value that is not nullish, for the names read here (\<open>command\<close>,
      \<open>extends\<close>, \<open>language\<close>), which no primitive or array has\<close>
  "readProp (JObj m) k = getProp m k"
| "readProp v k = JUndefined"

definition member :: "jsval \<Rightarrow> string \<Rightarrow> error + jsval" where
  \<comment> \<open>\<open>v.k\<close>: reading a property of \<open>undefined\<close> or \<open>null\<close> throws\<close>
  "member v k = (if nullish v then Inl TypeError else Inr (readProp v k))"

fun decimal :: "nat \<Rightarrow> string" where
  "decimal n =
     (if n < 10 then [char_of (48 + n)]
      else decimal (n div 10) @ [char_of (48 + n mod 10)])"

declare decimal.simps [simp del]

definition indexed :: "jsval list \<Rightarrow> (string \<Rightarrow> jsval option)" where
  "indexed xs = map_of (zip (map decimal [0..<length xs]) xs)"

fun ownProps :: "jsval \<Rightarrow> (string \<Rightarrow> jsval option)" where
  \<comment> \<open>the own enumerable properties that \<open>{...v}\<close> copies\<close>
  "ownProps (JObj m) = m"
| "ownProps (JArr xs) = indexed xs"
| "ownProps (JStr s) = indexed (map (\<lambda>c. JStr [c]) s)"
| "ownProps v = Map.empty"

fun iterate :: "jsval \<Rightarrow> error + jsval list" where
  \<comment> \<open>the elements that \<open>[...v]\<close> copies; a value that is not iterable throws\<close>
  "iterate (JArr xs) = Inr xs"
| "iterate (JStr s) = Inr (map (\<lambda>c. JStr [c]) s)"
| "iterate v = Inl TypeError"

definition bool_string :: "bool \<Rightarrow> string" where
  \<comment> \<open>a boolean inside a template literal\<close>
  "bool_string b = (if b then ''true'' else ''false'')"

section \<open>Effects of \<open>build\<close>\<close>

text \<open>
  What \<open>build\<close> does to the world is a list of effects in the order in which they happen;
  what it reads from the world is a record of answers. An outcome is the effects so far
  and either the exception that ended the run or a value. A console message is its text
  without colours, cut at its first line.
\<close>

record context_options =
  entryPoints :: "string list"
  handlerPaths :: "string \<times> string"
  pluginWatching :: jsval
  pluginWatchCommand :: jsval
  sourcemap :: jsval
  defaults :: "string \<Rightarrow> jsval option"
  dropLabels :: "jsval list"

datatype effect =
    Console string
  | ConsoleValue string jsval
  | Import string
  | ConfigDotenv jsval
  | Mkdir string
  | WriteFile string string
  | EngineContext context_options
  | EngineDefine "string \<Rightarrow> jsval option"
  | Rebuild
  | Watch
  | Dispose

fun touches :: "effect \<Rightarrow> bool" where
  \<comment> \<open>the effects that write a file, create a directory or call the bundling engine\<close>
  "touches (Console msg) = False"
| "touches (ConsoleValue name v) = False"
| "touches (Import path) = False"
| "touches (ConfigDotenv path) = False"
| "touches e = True"

type_synonym 'a outcome = "effect list \<times> (error + 'a)"

definition ret :: "'a \<Rightarrow> 'a outcome" where
  "ret a = ([], Inr a)"

definition throw :: "error \<Rightarrow> 'a outcome" where
  "throw e = ([], Inl e)"

definition emit :: "effect \<Rightarrow> unit outcome" where
  "emit e = ([e], Inr ())"

definition lift :: "error + 'a \<Rightarrow> 'a outcome" where
  "lift r = ([], r)"

definition and_then :: "'a outcome \<Rightarrow> ('a \<Rightarrow> 'b outcome) \<Rightarrow> 'b outcome" where
  \<comment> \<open>sequencing: an exception skips the rest\<close>
  "and_then m f =
     (case m of
        (es, Inl e) \<Rightarrow> (es, Inl e)
      | (es, Inr a) \<Rightarrow> (case f a of (es', r) \<Rightarrow> (es @ es', r)))"

record host =
  getConfig :: "error + jsval"
  p_resolve :: "string list \<Rightarrow> string"
  pathExists :: "string \<Rightarrow> bool"
  importDefault :: "string \<Rightarrow> error + jsval"
  nodeEnv :: "jsval \<Rightarrow> string option"
  parseTsConfig :: "jsval \<Rightarrow> error + jsval"
  glob :: "string list"
  packageVersion :: "error + string option"
  defaultEsbuild :: "jsval \<Rightarrow> jsval \<Rightarrow> (string \<Rightarrow> jsval option)"
  rebuild :: "error + unit"
  tsconfigText :: "jsval \<Rightarrow> string"
  ambientText :: "(string \<Rightarrow> jsval option) \<Rightarrow> string"

text \<open>
  The fields of \<open>host\<close>: \<open>getConfig\<close> is the result of \<open>getConfig()\<close>; \<open>p_resolve\<close> is
  \<open>path.resolve\<close>; \<open>pathExists\<close> answers \<open>pathExistsSync\<close> and \<open>pathExists\<close>;
  \<open>importDefault path\<close> is the default export of the module at \<open>path\<close>, or the exception
  of the import; \<open>nodeEnv path\<close> is \<open>process.env.NODE_ENV\<close> once \<open>configDotenv({ path })\<close>
  has run; \<open>parseTsConfig\<close>, \<open>glob\<close> and \<open>defaultEsbuild\<close> are the results of the calls of
  those names; \<open>packageVersion\<close> is \<open>JSON.stringify(require('package.json').version)\<close>,
  \<open>None\<close> for \<open>undefined\<close>; \<open>rebuild\<close> is the result of \<open>ctx.rebuild()\<close>; \<open>tsconfigText\<close> and
  \<open>ambientText\<close> are the texts that the preprocessor module renders.
\<close>

section \<open>The artifact writer\<close>

definition writeTsConfig ::
  "(jsval \<Rightarrow> string) \<Rightarrow> jsval \<Rightarrow> string \<Rightarrow> (string \<Rightarrow> string \<Rightarrow> 'w) \<Rightarrow> 'w"
where
  \<comment> \<open>Modelled from the spec: \<open>Preprocessor.writeTsConfig(format, path, writeFile)\<close> is not
      among the sources. It writes, through the writer it is handed, the project
      configuration whose module and target settings match \<open>format\<close>, as one full
      overwrite of the file at \<open>path\<close>. The text is the first argument.\<close>
  "writeTsConfig render format path writeFile = writeFile path (render format)"

definition writeAmbientFile ::
  "((string \<Rightarrow> jsval option) \<Rightarrow> string) \<Rightarrow> string \<Rightarrow> (string \<Rightarrow> jsval option) \<Rightarrow>
     (string \<Rightarrow> string \<Rightarrow> 'w) \<Rightarrow> 'w"
where
  \<comment> \<open>Modelled from the spec: \<open>Preprocessor.writeAmbientFile(path, define, writeFile)\<close> is
      not among the sources. It writes, through the writer it is handed, the ambient
      declaration that exposes each define as a typed global, as one full overwrite of the
      file at \<open>path\<close>. The text is the first argument.\<close>
  "writeAmbientFile render path define writeFile = writeFile path (render define)"

definition writeFile :: "string \<Rightarrow> string \<Rightarrow> (string \<Rightarrow> string option) \<Rightarrow> (string \<Rightarrow> string option)" where
  \<comment> \<open>\<open>fs/promises.writeFile\<close> on a file system that maps a path to the contents of its
      file: the file is created or replaced\<close>
  "writeFile path text files = files(path \<mapsto> text)"

definition writeArtifacts ::
  "(jsval \<Rightarrow> string) \<Rightarrow> ((string \<Rightarrow> jsval option) \<Rightarrow> string) \<Rightarrow> jsval \<Rightarrow>
     (string \<Rightarrow> jsval option) \<Rightarrow> string \<Rightarrow> string \<Rightarrow>
     (string \<Rightarrow> string option) \<Rightarrow> (string \<Rightarrow> string option)"
where
  \<comment> \<open>lines 79-80 on that file system\<close>
  "writeArtifacts tsText ambText format define ambientFilePath sernTsConfigPath files =
     writeAmbientFile ambText ambientFilePath define writeFile
       (writeTsConfig tsText format sernTsConfigPath writeFile files)"

section \<open>The config-injection hook: \<open>CommandHandlerPlugin\<close>\<close>

definition defVersion :: "host \<Rightarrow> error + string" where
  \<comment> \<open>\<open>`${defVersion()}`\<close>\<close>
  "defVersion h =
     (case packageVersion h of
        Inl e \<Rightarrow> Inl e
      | Inr None \<Rightarrow> Inr ''undefined''
      | Inr (Some text) \<Rightarrow> Inr text)"

definition handlerDefine :: "host \<Rightarrow> (string \<Rightarrow> jsval option) \<Rightarrow> error + (string \<Rightarrow> jsval option)" where
  \<comment> \<open>the object assigned to \<open>options.define\<close> in lines 73-78\<close>
  "handlerDefine h buildConfig =
     (case (if truthy (getProp buildConfig ''defineVersion'') then defVersion h
            else Inr ''undefined'') of
        Inl e \<Rightarrow> Inl e
      | Inr version \<Rightarrow>
          Inr ((ownProps (coalesce (getProp buildConfig ''define'') (JObj Map.empty)))
                (''__DEV__'' \<mapsto> JStr (bool_string (getProp buildConfig ''mode'' = JStr ''development'')),
                 ''__PROD__'' \<mapsto> JStr (bool_string (getProp buildConfig ''mode'' = JStr ''production'')),
                 ''__VERSION__'' \<mapsto> JStr version)))"

definition handlerSetup :: "host \<Rightarrow> (string \<Rightarrow> jsval option) \<Rightarrow> string \<Rightarrow> string \<Rightarrow> unit outcome" where
  \<comment> \<open>\<open>setup(build)\<close> of \<open>CommandHandlerPlugin(buildConfig, ambientFilePath, sernTsConfigPath)\<close>\<close>
  "handlerSetup h buildConfig ambientFilePath sernTsConfigPath =
     and_then (lift (handlerDefine h buildConfig)) (\<lambda>define.
     and_then (emit (EngineDefine define)) (\<lambda>u.
     and_then (writeTsConfig (tsconfigText h) (getProp buildConfig ''format'') sernTsConfigPath
                 (\<lambda>path text. emit (WriteFile path text))) (\<lambda>u.
     writeAmbientFile (ambientText h) ambientFilePath define
       (\<lambda>path text. emit (WriteFile path text)))))"

section \<open>Configuration resolution and orchestration: \<open>build\<close>\<close>

definition resolveBuildConfig :: "jsval \<Rightarrow> jsval \<Rightarrow> jsval" where
  "resolveBuildConfig path language =
     (if language = JStr ''javascript'' then coalesce path (JStr ''jsconfig.json'')
      else coalesce path (JStr ''tsconfig.json''))"

definition pathArg :: "jsval \<Rightarrow> error + string" where
  \<comment> \<open>\<open>path.resolve\<close> throws on an argument that is not a string\<close>
  "pathArg v = (case v of JStr s \<Rightarrow> Inr s | _ \<Rightarrow> Inl TypeError)"

definition buildConfigPath :: "host \<Rightarrow> (string \<Rightarrow> jsval option) \<Rightarrow> error + string" where
  \<comment> \<open>line 157\<close>
  "buildConfigPath h options =
     (case pathArg (coalesce (getProp options ''project'') (JStr ''sern.build.js'')) of
        Inl e \<Rightarrow> Inl e
      | Inr project \<Rightarrow> Inr (p_resolve h [project]))"

definition defaultBuildConfig :: "(string \<Rightarrow> jsval option) \<Rightarrow> jsval \<Rightarrow> (string \<Rightarrow> jsval option)" where
  \<comment> \<open>lines 159-171; the second argument is \<open>sernConfig.language\<close>\<close>
  "defaultBuildConfig options language =
     [''defineVersion'' \<mapsto> JBool True,
      ''format'' \<mapsto> coalesce (getProp options ''format'') (JStr ''esm''),
      ''mode'' \<mapsto> coalesce (getProp options ''mode'') (JStr ''development''),
      ''dropLabels'' \<mapsto> JArr [],
      ''sourcemap'' \<mapsto> getProp options ''sourceMaps'',
      ''tsconfig'' \<mapsto> resolveBuildConfig (getProp options ''tsconfig'') language,
      ''env'' \<mapsto> coalesce (getProp options ''env'') (JStr ''.env''),
      ''include'' \<mapsto> JArr [],
      ''watch'' \<mapsto> JObj [''command'' \<mapsto> getProp options ''watchCommand'']]"

definition mergeFileConfig ::
  "host \<Rightarrow> string \<Rightarrow> (string \<Rightarrow> jsval option) \<Rightarrow> (string \<Rightarrow> jsval option) outcome"
where
  \<comment> \<open>lines 174-186\<close>
  "mergeFileConfig h path defaultConfig =
     (if pathExists h path then
        and_then (emit (Import (''file:///'' @ path))) (\<lambda>u.
          case importDefault h path of
            Inl e \<Rightarrow> and_then (emit (Console ''Could not find buildConfigPath'')) (\<lambda>u. throw e)
          | Inr fileConfig \<Rightarrow> ret (defaultConfig ++ ownProps fileConfig))
      else
        and_then (emit (Console ''No build config found, defaulting'')) (\<lambda>u. ret defaultConfig))"

definition overrideMode :: "host \<Rightarrow> (string \<Rightarrow> jsval option) \<Rightarrow> (string \<Rightarrow> jsval option) outcome" where
  \<comment> \<open>lines 188-193; an empty \<open>NODE_ENV\<close> is falsy and overrides nothing\<close>
  "overrideMode h buildConfig =
     and_then (emit (ConfigDotenv (getProp buildConfig ''env''))) (\<lambda>u.
       case nodeEnv h (getProp buildConfig ''env'') of
         None \<Rightarrow> ret buildConfig
       | Some v \<Rightarrow>
           if v \<noteq> [] then
             and_then (emit (Console ''NODE_ENV: Found NODE_ENV variable, setting `mode` to this.''))
               (\<lambda>u. ret (buildConfig(''mode'' \<mapsto> JStr v)))
           else ret buildConfig)"

definition build_resolve ::
  "host \<Rightarrow> (string \<Rightarrow> jsval option) \<Rightarrow> (jsval \<times> (string \<Rightarrow> jsval option)) outcome"
where
  \<comment> \<open>lines 146-193 of \<open>build\<close>: the result is \<open>sernConfig.language\<close> and \<open>buildConfig\<close> as
      they are when the assertion of line 194 is reached\<close>
  "build_resolve h options =
     and_then (if \<not> truthy (getProp options ''supressWarnings'') then
                 emit (Console ''EXPERIMENTAL: This API has not been stabilized. add -W or --suppress-warnings flag to suppress'')
               else ret ()) (\<lambda>u.
     and_then (if \<not> truthy (getProp options ''watch'') \<and> truthy (getProp options ''watchCommand'')
               then throw InvalidArgumentError else ret ()) (\<lambda>u.
     and_then (lift (getConfig h)) (\<lambda>sernConfig.
     and_then (lift (buildConfigPath h options)) (\<lambda>path.
     and_then (lift (member sernConfig ''language'')) (\<lambda>language.
     and_then (mergeFileConfig h path (defaultBuildConfig options language)) (\<lambda>merged.
     and_then (overrideMode h merged) (\<lambda>buildConfig.
     ret (language, buildConfig))))))))"

definition checkProjectConfig :: "host \<Rightarrow> jsval \<Rightarrow> (string \<Rightarrow> jsval option) \<Rightarrow> unit outcome" where
  \<comment> \<open>lines 195-204\<close>
  "checkProjectConfig h language buildConfig =
     (case parseTsConfig h (getProp buildConfig ''tsconfig'') of
        Inl e \<Rightarrow>
          and_then (emit (Console ''no tsconfig / jsconfig found'')) (\<lambda>u.
          and_then (emit (Console (''Please create a '' @
                      (if language = JStr ''javascript'' then ''jsconfig.json'' else ''tsconfig.json'')))) (\<lambda>u.
          and_then (emit (Console ''It should have at least extend the generated one sern makes.'')) (\<lambda>u.
          throw e)))
      | Inr config \<Rightarrow>
          if \<not> nullish config \<and> truthy (readProp config ''extends'')
          then emit (Console ''Extend the generated tsconfig'')
          else ret ())"

definition announce :: "(string \<Rightarrow> jsval option) \<Rightarrow> unit outcome" where
  \<comment> \<open>lines 206-212\<close>
  "announce buildConfig =
     and_then (emit (Console ''Building with:'')) (\<lambda>u.
     and_then (emit (ConsoleValue ''defineVersion'' (getProp buildConfig ''defineVersion''))) (\<lambda>u.
     and_then (emit (ConsoleValue ''format'' (getProp buildConfig ''format''))) (\<lambda>u.
     and_then (emit (ConsoleValue ''mode'' (getProp buildConfig ''mode''))) (\<lambda>u.
     and_then (emit (ConsoleValue ''tsconfig'' (getProp buildConfig ''tsconfig''))) (\<lambda>u.
     and_then (emit (ConsoleValue ''env'' (getProp buildConfig ''env''))) (\<lambda>u.
     emit (ConsoleValue ''sourceMaps'' (getProp buildConfig ''sourcemap''))))))))"

definition pluginCommand :: "(string \<Rightarrow> jsval option) \<Rightarrow> jsval" where
  \<comment> \<open>\<open>buildConfig.watch?.command\<close>\<close>
  "pluginCommand buildConfig =
     (if nullish (getProp buildConfig ''watch'') then JUndefined
      else readProp (getProp buildConfig ''watch'') ''command'')"

definition orchestrate ::
  "host \<Rightarrow> (string \<Rightarrow> jsval option) \<Rightarrow> (string \<Rightarrow> jsval option) \<Rightarrow> unit outcome"
where
  \<comment> \<open>lines 214-245\<close>
  "orchestrate h options buildConfig =
     (let sernDir = p_resolve h [''.sern''];
          ambientFilePath = p_resolve h [sernDir, ''ambient.d.ts''];
          sernTsConfigPath = p_resolve h [sernDir, ''tsconfig.json''];
          genDir = p_resolve h [sernDir, ''generated'']
      in
        and_then (if \<not> pathExists h genDir then
                    and_then (emit (Console ''Making .sern/generated dir, does not exist''))
                      (\<lambda>u. emit (Mkdir genDir))
                  else ret ()) (\<lambda>u.
        and_then (lift (iterate (getProp buildConfig ''dropLabels''))) (\<lambda>labels.
        and_then (emit (EngineContext
                    \<lparr> entryPoints = glob h,
                      handlerPaths = (ambientFilePath, sernTsConfigPath),
                      pluginWatching = getProp options ''watch'',
                      pluginWatchCommand = pluginCommand buildConfig,
                      sourcemap = getProp buildConfig ''sourcemap'',
                      defaults = defaultEsbuild h (getProp buildConfig ''format'')
                                   (getProp buildConfig ''tsconfig''),
                      dropLabels =
                        JStr (if getProp buildConfig ''mode'' = JStr ''production''
                              then ''__DEV__'' else ''__PROD__'') # labels \<rparr>)) (\<lambda>u.
        and_then (handlerSetup h buildConfig ambientFilePath sernTsConfigPath) (\<lambda>u.
        and_then (emit Rebuild) (\<lambda>u.
        and_then (lift (rebuild h)) (\<lambda>u.
        if truthy (getProp options ''watch'') then emit Watch else emit Dispose)))))))"

definition assertMode :: "(string \<Rightarrow> jsval option) \<Rightarrow> unit outcome" where
  \<comment> \<open>line 194\<close>
  "assertMode buildConfig =
     (if getProp buildConfig ''mode'' = JStr ''development''
         \<or> getProp buildConfig ''mode'' = JStr ''production''
      then ret () else throw AssertionError)"

definition build :: "host \<Rightarrow> (string \<Rightarrow> jsval option) \<Rightarrow> unit outcome" where
  "build h options =
     and_then (build_resolve h options) (\<lambda>(language, buildConfig).
     and_then (assertMode buildConfig) (\<lambda>u.
     and_then (checkProjectConfig h language buildConfig) (\<lambda>u.
     and_then (announce buildConfig) (\<lambda>u.
     orchestrate h options buildConfig))))"

section \<open>Reading the outcome of \<open>build\<close>\<close>

definition quiet :: "'a outcome \<Rightarrow> bool" where
  \<comment> \<open>no effect of the outcome writes a file, creates a directory or calls the engine\<close>
  "quiet m = (filter touches (fst m) = [])"

fun handedDefines :: "effect list \<Rightarrow> (string \<Rightarrow> jsval option) list" where
  \<comment> \<open>the define maps that a run of effects hands to the engine, in order\<close>
  "handedDefines [] = []"
| "handedDefines (EngineDefine define # es) = define # handedDefines es"
| "handedDefines (e # es) = handedDefines es"

definition fileFields :: "host \<Rightarrow> string \<Rightarrow> (string \<Rightarrow> jsval option)" where
  \<comment> \<open>what the config file at \<open>path\<close> contributes to the spread of line 182: the own
      properties of its default export, and nothing when there is no such file\<close>
  "fileFields h path =
     (if pathExists h path then
        (case importDefault h path of Inl e \<Rightarrow> Map.empty | Inr v \<Rightarrow> ownProps v)
      else Map.empty)"

definition resolvedField :: "host \<Rightarrow> (string \<Rightarrow> jsval option) \<Rightarrow> string \<Rightarrow> error + jsval" where
  \<comment> \<open>\<open>buildConfig[k]\<close> when line 194 is reached, or the exception thrown before\<close>
  "resolvedField h options k =
     (case snd (build_resolve h options) of
        Inl e \<Rightarrow> Inl e
      | Inr (language, buildConfig) \<Rightarrow> Inr (getProp buildConfig k))"

text \<open>
  A host for running \<open>build\<close> on concrete inputs: a TypeScript project in \<open>/app\<close> whose
  \<open>sern.build.js\<close>, when there is one, exports the given object, and whose environment
  has the given \<open>NODE_ENV\<close>.
\<close>

definition resolveFrom :: "string \<Rightarrow> string list \<Rightarrow> string" where
  "resolveFrom cwd parts =
     foldl (\<lambda>acc part. if take 1 part = ''/'' then part else acc @ ''/'' @ part) cwd parts"

definition exampleHost :: "(string \<Rightarrow> jsval option) option \<Rightarrow> string option \<Rightarrow> host" where
  "exampleHost fileConfig env =
     \<lparr> getConfig = Inr (JObj [''language'' \<mapsto> JStr ''typescript'']),
       p_resolve = resolveFrom ''/app'',
       pathExists = (\<lambda>path. fileConfig \<noteq> None \<and> path = ''/app/sern.build.js''),
       importDefault = (\<lambda>path. case fileConfig of
                                   None \<Rightarrow> Inl (HostError ''ERR_MODULE_NOT_FOUND'')
                                 | Some m \<Rightarrow> Inr (JObj m)),
       nodeEnv = (\<lambda>path. env),
       parseTsConfig = (\<lambda>path. Inr (JObj [''extends'' \<mapsto> JStr ''./.sern/tsconfig.json''])),
       glob = [''src/index.ts''],
       packageVersion = Inr (Some ''1.0.0''),
       defaultEsbuild = (\<lambda>format tsconfig. Map.empty),
       rebuild = Inr (),
       tsconfigText = (\<lambda>format. case format of JStr s \<Rightarrow> ''module '' @ s | _ \<Rightarrow> ''module''),
       ambientText = (\<lambda>define. ''declare var __DEV__: boolean'') \<rparr>"

section \<open>Properties of the run supervisor\<close>

subsection \<open>Evaluation and the shape of a session\<close>

lemmas session_eval =
  initial_def onEnd_def stopPrevious_def reschedule_def resolveCommand_def
  defaultStartCommand_def pathExistsSync_def console_log_def cancel_def clearTimeout_def
  setTimeout_def restart_def elapse_def processExit_def Let_def

lemma supervised_initial: "supervised initial"
  by (simp add: supervised_def initial_def uncancelled_def)

lemma supervised_iff:
  "supervised s \<longleftrightarrow>
     (timers s = []
        \<or> (\<exists>t. timers s = [t] \<and> restartTimeout s = Some (fst t) \<and> currentProcess s = None))
     \<and> (currentProcess s = None \<and> uncancelled s = []
        \<or> (\<exists>p. currentProcess s = Some p \<and> uncancelled s = [p]))
     \<and> list_all (\<lambda>p. p < fresh s) (signalled s)
     \<and> list_all (\<lambda>p. p < fresh s) (map fst (spawned s))"
  by (auto simp: supervised_def split: list.splits option.splits)

lemma stopPrevious_eq:
  "stopPrevious s =
     s\<lparr>currentProcess := None,
       signalled := signalled s @ (case currentProcess s of None \<Rightarrow> [] | Some p \<Rightarrow> [p]),
       logs := logs s @ (if currentProcess s = None then []
                         else [''[watch] stopping previous process...''])\<rparr>"
  by (simp add: stopPrevious_def cancel_def console_log_def split: option.splits)

lemma filter_signalled_more:
  "filter (\<lambda>q. q \<noteq> p \<and> q \<notin> set sig) xs = filter (\<lambda>q. q \<noteq> p) (filter (\<lambda>q. q \<notin> set sig) xs)"
  by (induction xs) auto

lemma uncancelled_stopPrevious:
  assumes "supervised s"
  shows "uncancelled (stopPrevious s) = []"
proof (cases "currentProcess s")
  case None
  then show ?thesis using assms by (simp add: stopPrevious_eq uncancelled_def supervised_iff)
next
  case (Some p)
  then have u: "filter (\<lambda>q. q \<notin> set (signalled s)) (map fst (spawned s)) = [p]"
    using assms by (simp add: supervised_iff uncancelled_def)
  show ?thesis
    using Some by (simp add: stopPrevious_eq uncancelled_def filter_signalled_more u)
qed

lemma member_uncancelled:
  "uncancelled s = [p] \<Longrightarrow> p \<in> set (map fst (spawned s))"
proof -
  assume "uncancelled s = [p]"
  then have "p \<in> set (filter (\<lambda>q. q \<notin> set (signalled s)) (map fst (spawned s)))"
    by (simp add: uncancelled_def)
  then show ?thesis by simp
qed

lemma supervised_stopPrevious:
  assumes "supervised s"
  shows "supervised (stopPrevious s)"
proof -
  have u: "uncancelled (stopPrevious s) = []"
    using assms by (rule uncancelled_stopPrevious)
  have f: "list_all (\<lambda>p. p < fresh s) (signalled (stopPrevious s))"
  proof (cases "currentProcess s")
    case None
    then show ?thesis using assms by (simp add: stopPrevious_eq supervised_iff)
  next
    case (Some p)
    then have "p \<in> set (map fst (spawned s))"
      using assms member_uncancelled [of s p] by (simp add: supervised_iff)
    moreover have "list_all (\<lambda>p. p < fresh s) (map fst (spawned s))"
      using assms by (simp add: supervised_iff)
    ultimately have "p < fresh s"
      unfolding list_all_iff by blast
    then show ?thesis using Some assms by (simp add: stopPrevious_eq supervised_iff)
  qed
  have keep: "timers (stopPrevious s) = timers s" "restartTimeout (stopPrevious s) = restartTimeout s"
    "spawned (stopPrevious s) = spawned s" "fresh (stopPrevious s) = fresh s"
    "currentProcess (stopPrevious s) = None"
    by (simp_all add: stopPrevious_eq)
  show ?thesis
    unfolding supervised_iff keep using assms u f
    by (auto simp: supervised_iff)
qed

lemma reschedule_eq:
  "supervised s \<Longrightarrow> reschedule cmd s =
     s\<lparr>logs := logs s @ [''[watch] debouncing command for 1.5 seconds...''],
       timers := [(fresh s, now s + 1500, cmd)],
       restartTimeout := Some (fresh s), fresh := Suc (fresh s)\<rparr>"
  by (auto simp: supervised_iff reschedule_def clearTimeout_def console_log_def setTimeout_def
      split: option.splits)

lemma list_all_less_Suc:
  "list_all (\<lambda>p. p < n) xs \<Longrightarrow> list_all (\<lambda>p. p < Suc n) xs"
  by (induction xs) auto

lemma supervised_reschedule:
  assumes "supervised s" and "currentProcess s = None"
  shows "supervised (reschedule cmd s)"
proof -
  have "uncancelled (reschedule cmd s) = uncancelled s"
    by (simp add: reschedule_eq [OF assms(1)] uncancelled_def)
  then show ?thesis
    using assms by (simp add: reschedule_eq [OF assms(1)] supervised_iff list_all_less_Suc)
qed

lemma current_stopPrevious: "currentProcess (stopPrevious s) = None"
  by (simp add: stopPrevious_eq)

lemma supervised_logs: "supervised (s\<lparr>logs := l\<rparr>) = supervised s"
  by (simp add: supervised_iff uncancelled_def)

lemma supervised_first: "supervised (s\<lparr>isFirstBuild := b\<rparr>) = supervised s"
  by (simp add: supervised_iff uncancelled_def)

lemma supervised_onEnd:
  "supervised s \<Longrightarrow> supervised (snd (onEnd watching watchCommand fs n s))"
  by (simp add: onEnd_def supervised_stopPrevious supervised_reschedule current_stopPrevious
        console_log_def supervised_logs supervised_first split: sum.splits)

lemma elapse_idle: "timers s = [] \<Longrightarrow> elapse d s = s\<lparr>now := now s + d\<rparr>"
  by (simp add: elapse_def Let_def)

lemma elapse_early:
  "timers s = [(h, at, c)] \<Longrightarrow> now s + d < at \<Longrightarrow> elapse d s = s\<lparr>now := now s + d\<rparr>"
  by (simp add: elapse_def Let_def)

lemma elapse_fires:
  "timers s = [(h, at, c)] \<Longrightarrow> at \<le> now s + d \<Longrightarrow>
   elapse d s = s\<lparr>now := now s + d, timers := [],
      logs := logs s @ [''[watch] running command: '' @ c],
      currentProcess := Some (fresh s), live := fresh s # live s,
      spawned := spawned s @ [(fresh s, c)], fresh := Suc (fresh s)\<rparr>"
  by (simp add: elapse_def Let_def restart_def console_log_def)

lemma supervised_now: "supervised (s\<lparr>now := t\<rparr>) = supervised s"
  by (simp add: supervised_iff uncancelled_def)

lemma fresh_not_signalled:
  "list_all (\<lambda>p. p < n) xs \<Longrightarrow> (n::nat) \<notin> set xs"
  by (induction xs) auto

lemma supervised_elapse:
  assumes "supervised s"
  shows "supervised (elapse d s)"
proof (cases "timers s")
  case Nil
  then show ?thesis using assms by (simp add: elapse_idle supervised_now)
next
  case (Cons t ts)
  then obtain h at c where t: "timers s = [(h, at, c)]" and r: "restartTimeout s = Some h"
    and l: "currentProcess s = None" and u: "uncancelled s = []"
    using assms by (cases t) (auto simp: supervised_iff)
  have sg: "list_all (\<lambda>p. p < fresh s) (signalled s)"
    and sp: "list_all (\<lambda>p. p < fresh s) (map fst (spawned s))"
    using assms by (simp_all add: supervised_iff)
  show ?thesis
  proof (cases "at \<le> now s + d")
    case True
    have "uncancelled (elapse d s) = [fresh s]"
      using u fresh_not_signalled [OF sg]
      by (simp add: elapse_fires [OF t True] uncancelled_def)
    then show ?thesis
      using sg sp
      by (simp add: supervised_iff) (simp add: elapse_fires [OF t True] list_all_less_Suc)
  next
    case False
    then show ?thesis using t assms by (simp add: elapse_early supervised_now)
  qed
qed

lemma supervised_live: "supervised (s\<lparr>live := l\<rparr>) = supervised s"
  by (simp add: supervised_iff uncancelled_def)

lemma supervised_processExit: "supervised s \<Longrightarrow> supervised (processExit p failure s)"
  by (simp add: processExit_def console_log_def supervised_live supervised_logs
      split: option.splits)

lemma supervised_rejected: "supervised (s\<lparr>rejected := r\<rparr>) = supervised s"
  by (simp add: supervised_iff uncancelled_def)

lemma supervised_step: "supervised s \<Longrightarrow> supervised (step watching watchCommand ev s)"
proof (cases ev)
  case (BuildEnd n fs)
  assume "supervised s"
  then have "supervised (snd (onEnd watching watchCommand fs n s))"
    by (rule supervised_onEnd)
  then show ?thesis using BuildEnd
    by (cases "onEnd watching watchCommand fs n s")
       (auto simp: supervised_rejected split: sum.splits)
next
  case (Elapse d)
  assume "supervised s"
  then show ?thesis using Elapse by (simp add: supervised_elapse)
next
  case (ProcessExit p f)
  assume "supervised s"
  then show ?thesis using ProcessExit by (simp add: supervised_processExit)
qed

lemma supervised_run: "supervised s \<Longrightarrow> supervised (run watching watchCommand evs s)"
  by (induction evs arbitrary: s) (simp_all add: supervised_step)


lemma onEnd_schedules:
  assumes "supervised s" "\<not> isFirstBuild s" "watchCommand \<noteq> Some []"
    and "resolveCommand watchCommand fs = Inr cmd"
  shows "onEnd True watchCommand fs 0 s =
     (Inr (), s\<lparr>currentProcess := None,
        signalled := signalled s @ (case currentProcess s of None \<Rightarrow> [] | Some p \<Rightarrow> [p]),
        logs := logs s
          @ (if currentProcess s = None then [] else [''[watch] stopping previous process...''])
          @ [''[watch] debouncing command for 1.5 seconds...''],
        timers := [(fresh s, now s + 1500, cmd)],
        restartTimeout := Some (fresh s), fresh := Suc (fresh s)\<rparr>)"
proof -
  have sup: "supervised (stopPrevious s)"
    using assms(1) by (rule supervised_stopPrevious)
  have "onEnd True watchCommand fs 0 s = (Inr (), reschedule cmd (stopPrevious s))"
    using assms by (simp add: onEnd_def)
  also have "reschedule cmd (stopPrevious s) =
      (stopPrevious s)\<lparr>logs := logs (stopPrevious s) @ [''[watch] debouncing command for 1.5 seconds...''],
       timers := [(fresh (stopPrevious s), now (stopPrevious s) + 1500, cmd)],
       restartTimeout := Some (fresh (stopPrevious s)), fresh := Suc (fresh (stopPrevious s))\<rparr>"
    by (rule reschedule_eq [OF sup])
  finally show ?thesis
    by (simp add: stopPrevious_eq)
qed

lemma idle_step:
  "timers s = [] \<and> spawned s = [] \<and> live s = [] \<Longrightarrow>
   timers (step watching (Some '''') ev s) = []
   \<and> spawned (step watching (Some '''') ev s) = []
   \<and> live (step watching (Some '''') ev s) = []"
  by (cases ev) (simp_all add: onEnd_def console_log_def elapse_idle processExit_def)

lemma idle_run:
  "timers s = [] \<and> spawned s = [] \<and> live s = [] \<Longrightarrow>
   timers (run watching (Some '''') evs s) = []
   \<and> spawned (run watching (Some '''') evs s) = []
   \<and> live (run watching (Some '''') evs s) = []"
proof (induction evs arbitrary: s)
  case Nil
  then show ?case by simp
next
  case (Cons ev evs)
  have "run watching (Some '''') (ev # evs) s = run watching (Some '''') evs (step watching (Some '''') ev s)"
    by simp
  then show ?case
    using Cons.IH [OF idle_step [OF Cons.prems]] by simp
qed

subsection \<open>The claims\<close>




text \<open>
  C3, as amended. Take a session reached in watch mode after the first successful build,
  and two successful build completions less than one debounce window apart, for each of
  which a run command is resolved (the configured command is not the empty string, and it is
  either given or found from a lock file). Then nothing is spawned up to the second
  completion; the timer set by the first is gone and the only pending timer is the one set
  by the second; and when that timer is due exactly one process is spawned, with the
  command resolved at the second completion.
\<close>

theorem debounce_collapses:
  assumes reach: "s = run True watchCommand evs initial"
    and later: "\<not> isFirstBuild s"
    and nonempty: "watchCommand \<noteq> Some []"
    and cmdA: "resolveCommand watchCommand fsA = Inr cmdA"
    and cmdB: "resolveCommand watchCommand fsB = Inr cmdB"
    and window: "d < 1500"
  shows "spawned (run True watchCommand [BuildEnd 0 fsA, Elapse d, BuildEnd 0 fsB] s) = spawned s
    \<and> timers (run True watchCommand [BuildEnd 0 fsA] s) = [(fresh s, now s + 1500, cmdA)]
    \<and> timers (run True watchCommand [BuildEnd 0 fsA, Elapse d, BuildEnd 0 fsB] s)
          = [(Suc (fresh s), now s + d + 1500, cmdB)]
    \<and> spawned (run True watchCommand [BuildEnd 0 fsA, Elapse d, BuildEnd 0 fsB, Elapse 1500] s)
          = spawned s @ [(Suc (Suc (fresh s)), cmdB)]
    \<and> timers (run True watchCommand [BuildEnd 0 fsA, Elapse d, BuildEnd 0 fsB, Elapse 1500] s) = []"
proof -
  have sup: "supervised s"
    unfolding reach by (rule supervised_run [OF supervised_initial])
  define a where "a = step True watchCommand (BuildEnd 0 fsA) s"
  define b where "b = elapse d a"
  define c where "c = step True watchCommand (BuildEnd 0 fsB) b"
  have a: "a = s\<lparr>currentProcess := None,
        signalled := signalled s @ (case currentProcess s of None \<Rightarrow> [] | Some p \<Rightarrow> [p]),
        logs := logs s
          @ (if currentProcess s = None then [] else [''[watch] stopping previous process...''])
          @ [''[watch] debouncing command for 1.5 seconds...''],
        timers := [(fresh s, now s + 1500, cmdA)],
        restartTimeout := Some (fresh s), fresh := Suc (fresh s)\<rparr>"
    unfolding a_def by (simp add: onEnd_schedules [OF sup later nonempty cmdA])
  have supa: "supervised a"
    unfolding a_def using sup by (rule supervised_step)
  have b: "b = a\<lparr>now := now s + d\<rparr>"
    unfolding b_def using window
    by (subst elapse_early [where h = "fresh s" and at = "now s + 1500" and c = cmdA])
       (simp_all add: a)
  have supb: "supervised b"
    unfolding b_def using supa by (rule supervised_elapse)
  have lb: "\<not> isFirstBuild b"
    using later by (simp add: b a)
  have c: "c = b\<lparr>currentProcess := None,
        signalled := signalled b @ (case currentProcess b of None \<Rightarrow> [] | Some p \<Rightarrow> [p]),
        logs := logs b
          @ (if currentProcess b = None then [] else [''[watch] stopping previous process...''])
          @ [''[watch] debouncing command for 1.5 seconds...''],
        timers := [(fresh b, now b + 1500, cmdB)],
        restartTimeout := Some (fresh b), fresh := Suc (fresh b)\<rparr>"
    unfolding c_def by (simp add: onEnd_schedules [OF supb lb nonempty cmdB])
  have tc: "timers c = [(Suc (fresh s), now s + d + 1500, cmdB)]"
    by (simp add: c b a)
  have e: "elapse 1500 c = c\<lparr>now := now c + 1500, timers := [],
      logs := logs c @ [''[watch] running command: '' @ cmdB],
      currentProcess := Some (fresh c), live := fresh c # live c,
      spawned := spawned c @ [(fresh c, cmdB)], fresh := Suc (fresh c)\<rparr>"
    by (rule elapse_fires [OF tc]) (simp add: c b a)
  have r3: "run True watchCommand [BuildEnd 0 fsA, Elapse d, BuildEnd 0 fsB] s = c"
    by (simp add: a_def b_def c_def)
  have r4: "run True watchCommand [BuildEnd 0 fsA, Elapse d, BuildEnd 0 fsB, Elapse 1500] s
      = elapse 1500 c"
    by (simp add: a_def b_def c_def)
  have r1: "run True watchCommand [BuildEnd 0 fsA] s = a"
    by (simp add: a_def)
  show ?thesis
    unfolding r1 r3 r4 e by (simp add: c b a)
qed

theorem debounce_collapses_witness:
  "spawned (run True None
      [BuildEnd 0 [''yarn.lock''], Elapse 100, BuildEnd 0 [''yarn.lock''], Elapse 1500]
      (run True None [BuildEnd 0 []] initial)) = [(2, ''yarn start'')]"
  using debounce_collapses [of "run True None [BuildEnd 0 []] initial" None "[BuildEnd 0 []]"
      "[''yarn.lock'']" "''yarn start''" "[''yarn.lock'']" "''yarn start''" 100]
  by (simp add: session_eval)

text \<open>
  With the empty string as the configured command, the same two completions inside one
  window spawn nothing at all: the claim as first stated, for every configured command,
  fails there.
\<close>

theorem debounce_empty_command_counterexample:
  "spawned (run True (Some '''')
      [BuildEnd 0 [], BuildEnd 0 [''yarn.lock''], Elapse 100, BuildEnd 0 [''yarn.lock''],
       Elapse 1500] initial) = []"
  by (simp add: session_eval)

text \<open>
  C4. In watch mode, the first successful build completion schedules no debounce timer and
  spawns no subprocess, whatever the configured command: the only change to the session is
  that the first build is marked as completed.
\<close>

theorem first_build_only_marks:
  "onEnd True watchCommand fs 0 (s\<lparr>isFirstBuild := True\<rparr>) = (Inr (), s\<lparr>isFirstBuild := False\<rparr>)"
  by (simp add: onEnd_def)

theorem first_build_only_marks_witness:
  "onEnd True (Some ''node dist/index.js'') [''yarn.lock''] 0 (initial\<lparr>isFirstBuild := True\<rparr>)
     = (Inr (), initial\<lparr>isFirstBuild := False\<rparr>)"
  using first_build_only_marks [of "Some ''node dist/index.js''" "[''yarn.lock'']" initial]
  by simp

text \<open>
  C5. A post-build event whose result reports one or more errors leaves the whole session
  unchanged: nothing is cancelled, spawned, scheduled or logged.
\<close>

theorem errors_leave_session_unchanged:
  "onEnd watching watchCommand fs (Suc n) s = (Inr (), s)"
  by (simp add: onEnd_def)

theorem errors_leave_session_unchanged_witness:
  "onEnd True (Some ''node dist/index.js'') [''yarn.lock''] 2
      (run True (Some ''node dist/index.js'') [BuildEnd 0 []] initial)
     = (Inr (), run True (Some ''node dist/index.js'') [BuildEnd 0 []] initial)"
  using errors_leave_session_unchanged [of True "Some ''node dist/index.js''" "[''yarn.lock'']" 1
      "run True (Some ''node dist/index.js'') [BuildEnd 0 []] initial"]
  by (simp add: numeral_2_eq_2)

text \<open>
  C6. After the first build, with no configured command and none of the five lock files in
  the working directory, the hook throws \<open>NoStartCommandFound\<close>. That attempt sets no
  timer and spawns nothing; the engine reports the rejection; the session stays past its
  first build; and the next completion, when a command is found, runs the hook to the end
  and schedules the restart.
\<close>

theorem no_start_command_skips_attempt:
  assumes later: "\<not> isFirstBuild s"
    and nolock: "set fs \<inter> {''package-lock.json'', ''yarn.lock'', ''pnpm-lock.yaml'',
                   ''bun.lockb'', ''bun.lock''} = {}"
    and found: "resolveCommand None fs' = Inr cmd"
  shows "onEnd True None fs 0 s = (Inl NoStartCommandFound, stopPrevious s)
    \<and> timers (step True None (BuildEnd 0 fs) s) = timers s
    \<and> spawned (step True None (BuildEnd 0 fs) s) = spawned s
    \<and> rejected (step True None (BuildEnd 0 fs) s) = rejected s @ [NoStartCommandFound]
    \<and> \<not> isFirstBuild (step True None (BuildEnd 0 fs) s)
    \<and> run True None (BuildEnd 0 fs # BuildEnd 0 fs' # evs) s
        = run True None evs
            (reschedule cmd (stopPrevious (step True None (BuildEnd 0 fs) s)))"
proof -
  define s' where "s' = step True None (BuildEnd 0 fs) s"
  have none: "resolveCommand None fs = Inl NoStartCommandFound"
    using nolock by (simp add: resolveCommand_def defaultStartCommand_def pathExistsSync_def)
  have hook: "onEnd True None fs 0 s = (Inl NoStartCommandFound, stopPrevious s)"
    using later none by (simp add: onEnd_def)
  have st: "s' = (stopPrevious s)\<lparr>rejected := rejected (stopPrevious s) @ [NoStartCommandFound]\<rparr>"
    by (simp add: s'_def hook)
  have keep: "timers (stopPrevious s) = timers s" "spawned (stopPrevious s) = spawned s"
    "rejected (stopPrevious s) = rejected s" "isFirstBuild (stopPrevious s) = isFirstBuild s"
    by (simp_all add: stopPrevious_def cancel_def console_log_def split: option.splits)
  have facts: "timers s' = timers s" "spawned s' = spawned s"
    "rejected s' = rejected s @ [NoStartCommandFound]" "\<not> isFirstBuild s'"
    using later by (simp_all add: st keep)
  have nxt: "onEnd True None fs' 0 s' = (Inr (), reschedule cmd (stopPrevious s'))"
    using facts(4) found by (simp add: onEnd_def)
  have "run True None (BuildEnd 0 fs # BuildEnd 0 fs' # evs) s
      = run True None evs (step True None (BuildEnd 0 fs') s')"
    by (simp only: run.simps s'_def)
  also have "step True None (BuildEnd 0 fs') s' = reschedule cmd (stopPrevious s')"
    by (simp add: nxt)
  finally have cont: "run True None (BuildEnd 0 fs # BuildEnd 0 fs' # evs) s
      = run True None evs (reschedule cmd (stopPrevious s'))" .
  show ?thesis
    using hook facts cont unfolding s'_def by blast
qed

theorem no_start_command_skips_attempt_witness:
  "timers (run True None
      [BuildEnd 0 [], BuildEnd 0 [''README.md''], BuildEnd 0 [''bun.lock'']] initial)
     = [(0, 1500, ''bun start'')]
   \<and> rejected (run True None
      [BuildEnd 0 [], BuildEnd 0 [''README.md''], BuildEnd 0 [''bun.lock'']] initial)
     = [NoStartCommandFound]"
  using no_start_command_skips_attempt [of "initial\<lparr>isFirstBuild := False\<rparr>"
      "[''README.md'']" "[''bun.lock'']" "''bun start''" "[]"]
  by (simp add: session_eval)

text \<open>
  C7, as amended. With the empty string as the configured command no run step is ever
  performed: over a whole session nothing is spawned and no timer is set, and a successful
  completion after the first build only logs that the command is skipped.
\<close>

theorem empty_command_no_run_step:
  "spawned (run watching (Some '''') evs initial) = []
   \<and> timers (run watching (Some '''') evs initial) = []
   \<and> onEnd True (Some '''') fs 0 (s\<lparr>isFirstBuild := False\<rparr>)
       = (Inr (), (s\<lparr>isFirstBuild := False\<rparr>)
            \<lparr>logs := logs s @ [''[watch] no command provided, skipping'']\<rparr>)"
  using idle_run [of initial watching evs]
  by (simp add: initial_def onEnd_def console_log_def)

theorem empty_command_no_run_step_witness:
  "spawned (run True (Some '''')
      [BuildEnd 0 [], BuildEnd 0 [''package-lock.json''], Elapse 1500] initial) = []"
  using empty_command_no_run_step [of True
      "[BuildEnd 0 [], BuildEnd 0 [''package-lock.json''], Elapse 1500]" "[]" initial]
  by simp

text \<open>
  With the command absent the hook falls back to the package manager's start command, so a
  run step is performed: the claim as first stated fails for the absent case.
\<close>

theorem absent_command_counterexample:
  "spawned (run True None
      [BuildEnd 0 [], BuildEnd 0 [''package-lock.json''], Elapse 1500] initial)
     = [(1, ''npm start'')]"
  by (simp add: session_eval)

section \<open>Properties of \<open>build\<close> and of the config-injection hook\<close>

subsection \<open>Effects and results of the resolution\<close>

lemmas build_eval =
  build_def build_resolve_def mergeFileConfig_def overrideMode_def buildConfigPath_def
  pathArg_def member_def defaultBuildConfig_def resolveBuildConfig_def coalesce_def
  getProp_def assertMode_def and_then_def ret_def throw_def emit_def lift_def
  exampleHost_def resolveFrom_def

lemma quiet_ret: "quiet (ret a)"
  by (simp add: quiet_def ret_def)

lemma quiet_throw: "quiet (throw e)"
  by (simp add: quiet_def throw_def)

lemma quiet_lift: "quiet (lift r)"
  by (simp add: quiet_def lift_def)

lemma quiet_emit: "\<not> touches e \<Longrightarrow> quiet (emit e)"
  by (simp add: quiet_def emit_def)

lemma quiet_and_then: "quiet m \<Longrightarrow> (\<And>a. quiet (f a)) \<Longrightarrow> quiet (and_then m f)"
proof -
  assume m: "quiet m" and f: "\<And>a. quiet (f a)"
  obtain es r where mr: "m = (es, r)" by (cases m)
  show ?thesis
  proof (cases r)
    case (Inl e)
    then show ?thesis using m mr by (simp add: and_then_def quiet_def)
  next
    case (Inr a)
    obtain es' r' where fr: "f a = (es', r')" by (cases "f a")
    have "filter touches es' = []" using f [of a] fr by (simp add: quiet_def)
    then show ?thesis using m mr Inr fr by (simp add: and_then_def quiet_def)
  qed
qed

lemmas quiet_intros = quiet_and_then quiet_ret quiet_throw quiet_lift quiet_emit

lemma quiet_mergeFileConfig: "quiet (mergeFileConfig h path d)"
  unfolding mergeFileConfig_def
  by (auto intro!: quiet_intros split: sum.splits)

lemma quiet_overrideMode: "quiet (overrideMode h c)"
  unfolding overrideMode_def
  by (auto intro!: quiet_intros split: option.splits)

lemma quiet_build_resolve: "quiet (build_resolve h options)"
  unfolding build_resolve_def
  by (auto intro!: quiet_intros quiet_mergeFileConfig quiet_overrideMode)

lemma snd_and_then:
  "snd (and_then m f) = (case snd m of Inl e \<Rightarrow> Inl e | Inr a \<Rightarrow> snd (f a))"
  by (cases m) (simp add: and_then_def split: sum.splits prod.splits)

lemma snd_basic:
  "snd (ret a) = Inr a" "snd (throw e) = Inl e" "snd (emit x) = Inr ()" "snd (lift r) = r"
  by (simp_all add: ret_def throw_def emit_def lift_def)

lemma snd_mergeFileConfig:
  "snd (mergeFileConfig h path d) =
     (if pathExists h path then
        (case importDefault h path of Inl e \<Rightarrow> Inl e | Inr v \<Rightarrow> Inr (d ++ ownProps v))
      else Inr d)"
  by (simp add: mergeFileConfig_def snd_and_then snd_basic split: sum.splits)

lemma snd_overrideMode:
  "snd (overrideMode h c) =
     Inr (case nodeEnv h (getProp c ''env'') of
            None \<Rightarrow> c
          | Some v \<Rightarrow> if v \<noteq> [] then c(''mode'' \<mapsto> JStr v) else c)"
  by (simp add: overrideMode_def snd_and_then snd_basic split: option.splits)

lemma snd_build_resolve:
  assumes "snd (build_resolve h options) = Inr (language, cfg)"
    and "buildConfigPath h options = Inr path"
  shows "\<exists>merged. snd (mergeFileConfig h path (defaultBuildConfig options language)) = Inr merged
           \<and> snd (overrideMode h merged) = Inr cfg"
  using assms
  by (auto simp: build_resolve_def snd_and_then snd_basic snd_overrideMode
      split: sum.splits if_splits)

lemma getProp_add:
  "getProp (d ++ f) k = (case f k of Some v \<Rightarrow> v | None \<Rightarrow> getProp d k)"
  by (simp add: getProp_def map_add_def split: option.splits)

lemma default_fields:
  "getProp (defaultBuildConfig options language) ''mode''
     = coalesce (getProp options ''mode'') (JStr ''development'')"
  "getProp (defaultBuildConfig options language) ''format''
     = coalesce (getProp options ''format'') (JStr ''esm'')"
  "getProp (defaultBuildConfig options language) ''env''
     = coalesce (getProp options ''env'') (JStr ''.env'')"
  "getProp (defaultBuildConfig options language) ''sourcemap'' = getProp options ''sourceMaps''"
  "getProp (defaultBuildConfig options language) ''tsconfig''
     = resolveBuildConfig (getProp options ''tsconfig'') language"
  "getProp (defaultBuildConfig options language) ''watch''
     = JObj [''command'' \<mapsto> getProp options ''watchCommand'']"
  "getProp (defaultBuildConfig options language) ''defineVersion'' = JBool True"
  "getProp (defaultBuildConfig options language) ''dropLabels'' = JArr []"
  by (simp_all add: defaultBuildConfig_def getProp_def)

lemma handlerDefine_keys:
  "(case handlerDefine h buildConfig of
      Inl e \<Rightarrow> truthy (getProp buildConfig ''defineVersion'') \<and> packageVersion h = Inl e
    | Inr define \<Rightarrow>
        define ''__DEV__''
          = Some (JStr (bool_string (getProp buildConfig ''mode'' = JStr ''development'')))
        \<and> define ''__PROD__''
          = Some (JStr (bool_string (getProp buildConfig ''mode'' = JStr ''production'')))
        \<and> (\<exists>version. define ''__VERSION__'' = Some (JStr version))
        \<and> (\<not> truthy (getProp buildConfig ''defineVersion'')
             \<longrightarrow> define ''__VERSION__'' = Some (JStr ''undefined'')))"
  by (auto simp: handlerDefine_def defVersion_def split: sum.splits option.splits if_splits)

lemma handlerSetup_effects:
  "handlerSetup h buildConfig ambientFilePath sernTsConfigPath =
     (case handlerDefine h buildConfig of
        Inl e \<Rightarrow> ([], Inl e)
      | Inr define \<Rightarrow>
          ([EngineDefine define,
            WriteFile sernTsConfigPath (tsconfigText h (getProp buildConfig ''format'')),
            WriteFile ambientFilePath (ambientText h define)], Inr ()))"
  by (simp add: handlerSetup_def and_then_def lift_def emit_def writeTsConfig_def
      writeAmbientFile_def split: sum.splits)

subsection \<open>The claims\<close>

text \<open>
  C1, as amended. Whenever the resolution reaches the mode check, every field of the
  resolved configuration is the field of the config file if the file has it, else the value
  of the CLI flag if that is given, else the built-in default. For \<open>mode\<close> only, a
  \<open>NODE_ENV\<close> that is set and not empty once the env file is loaded wins over all of
  these. So for a field set both on the CLI and in the config file the resolved value is
  the file's.
\<close>

theorem file_over_cli_over_defaults:
  assumes resolved: "build_resolve h options = (es, Inr (language, cfg))"
    and path: "buildConfigPath h options = Inr path"
    and ff: "fromFile = fileFields h path"
    and ov: "override = nodeEnv h (case fromFile ''env'' of Some v \<Rightarrow> v
                     | None \<Rightarrow> coalesce (getProp options ''env'') (JStr ''.env''))"
  shows "getProp cfg ''mode'' =
           (if override \<noteq> None \<and> override \<noteq> Some [] then JStr (the override)
            else case fromFile ''mode'' of Some v \<Rightarrow> v
                 | None \<Rightarrow> coalesce (getProp options ''mode'') (JStr ''development''))
    \<and> getProp cfg ''format'' =
           (case fromFile ''format'' of Some v \<Rightarrow> v
            | None \<Rightarrow> coalesce (getProp options ''format'') (JStr ''esm''))
    \<and> getProp cfg ''env'' =
           (case fromFile ''env'' of Some v \<Rightarrow> v
            | None \<Rightarrow> coalesce (getProp options ''env'') (JStr ''.env''))
    \<and> getProp cfg ''sourcemap'' =
           (case fromFile ''sourcemap'' of Some v \<Rightarrow> v | None \<Rightarrow> getProp options ''sourceMaps'')
    \<and> getProp cfg ''tsconfig'' =
           (case fromFile ''tsconfig'' of Some v \<Rightarrow> v
            | None \<Rightarrow> resolveBuildConfig (getProp options ''tsconfig'') language)
    \<and> getProp cfg ''watch'' =
           (case fromFile ''watch'' of Some v \<Rightarrow> v
            | None \<Rightarrow> JObj [''command'' \<mapsto> getProp options ''watchCommand''])
    \<and> getProp cfg ''defineVersion'' =
           (case fromFile ''defineVersion'' of Some v \<Rightarrow> v | None \<Rightarrow> JBool True)
    \<and> getProp cfg ''dropLabels'' =
           (case fromFile ''dropLabels'' of Some v \<Rightarrow> v | None \<Rightarrow> JArr [])
    \<and> (\<forall>k. k \<noteq> ''mode'' \<longrightarrow>
           getProp cfg k =
             (case fromFile k of Some v \<Rightarrow> v
              | None \<Rightarrow> getProp (defaultBuildConfig options language) k))"
proof -
  have "snd (build_resolve h options) = Inr (language, cfg)"
    using resolved by simp
  then obtain merged where
    m: "snd (mergeFileConfig h path (defaultBuildConfig options language)) = Inr merged"
    and c: "snd (overrideMode h merged) = Inr cfg"
    using snd_build_resolve [OF _ path] by blast
  have merged: "merged = defaultBuildConfig options language ++ fromFile"
    using m unfolding ff
    by (auto simp: snd_mergeFileConfig fileFields_def split: if_splits sum.splits)
  have e: "override = nodeEnv h (getProp merged ''env'')"
    unfolding ov merged by (simp add: getProp_add default_fields split: option.splits)
  have cfg: "cfg = (case override of None \<Rightarrow> merged
                   | Some v \<Rightarrow> if v \<noteq> [] then merged(''mode'' \<mapsto> JStr v) else merged)"
    using c unfolding e by (simp add: snd_overrideMode)
  have other: "getProp cfg k = getProp merged k" if "k \<noteq> ''mode''" for k
    using that unfolding cfg by (simp add: getProp_def split: option.splits)
  have mode: "getProp cfg ''mode'' =
      (if override \<noteq> None \<and> override \<noteq> Some [] then JStr (the override) else getProp merged ''mode'')"
    unfolding cfg by (auto simp: getProp_def split: option.splits)
  have rest: "\<forall>k. k \<noteq> ''mode'' \<longrightarrow>
           getProp cfg k =
             (case fromFile k of Some v \<Rightarrow> v
              | None \<Rightarrow> getProp (defaultBuildConfig options language) k)"
    by (simp add: other merged getProp_add)
  have fields: "getProp cfg ''mode'' =
           (if override \<noteq> None \<and> override \<noteq> Some [] then JStr (the override)
            else case fromFile ''mode'' of Some v \<Rightarrow> v
                 | None \<Rightarrow> coalesce (getProp options ''mode'') (JStr ''development''))
    \<and> getProp cfg ''format'' =
           (case fromFile ''format'' of Some v \<Rightarrow> v
            | None \<Rightarrow> coalesce (getProp options ''format'') (JStr ''esm''))
    \<and> getProp cfg ''env'' =
           (case fromFile ''env'' of Some v \<Rightarrow> v
            | None \<Rightarrow> coalesce (getProp options ''env'') (JStr ''.env''))
    \<and> getProp cfg ''sourcemap'' =
           (case fromFile ''sourcemap'' of Some v \<Rightarrow> v | None \<Rightarrow> getProp options ''sourceMaps'')
    \<and> getProp cfg ''tsconfig'' =
           (case fromFile ''tsconfig'' of Some v \<Rightarrow> v
            | None \<Rightarrow> resolveBuildConfig (getProp options ''tsconfig'') language)
    \<and> getProp cfg ''watch'' =
           (case fromFile ''watch'' of Some v \<Rightarrow> v
            | None \<Rightarrow> JObj [''command'' \<mapsto> getProp options ''watchCommand''])
    \<and> getProp cfg ''defineVersion'' =
           (case fromFile ''defineVersion'' of Some v \<Rightarrow> v | None \<Rightarrow> JBool True)
    \<and> getProp cfg ''dropLabels'' =
           (case fromFile ''dropLabels'' of Some v \<Rightarrow> v | None \<Rightarrow> JArr [])"
    unfolding mode by (simp add: other merged getProp_add default_fields split: option.splits)
  show ?thesis
    using fields rest by blast
qed

theorem file_over_cli_over_defaults_witness:
  "resolvedField (exampleHost (Some [''format'' \<mapsto> JStr ''cjs'']) (Some ''production''))
      [''mode'' \<mapsto> JStr ''development'', ''format'' \<mapsto> JStr ''esm''] ''mode''
       = Inr (JStr ''production'')
   \<and> resolvedField (exampleHost (Some [''format'' \<mapsto> JStr ''cjs'']) (Some ''production''))
      [''mode'' \<mapsto> JStr ''development'', ''format'' \<mapsto> JStr ''esm''] ''format''
       = Inr (JStr ''cjs'')"
proof -
  let ?h = "exampleHost (Some [''format'' \<mapsto> JStr ''cjs'']) (Some ''production'')"
  let ?o = "[''mode'' \<mapsto> JStr ''development'', ''format'' \<mapsto> JStr ''esm'']"
  obtain es r where b: "build_resolve ?h ?o = (es, r)"
    by (cases "build_resolve ?h ?o")
  have "\<exists>cfg. r = Inr (JStr ''typescript'', cfg)"
    using b by (simp add: build_eval) blast
  then obtain cfg where r: "r = Inr (JStr ''typescript'', cfg)" by blast
  have p: "buildConfigPath ?h ?o = Inr ''/app/sern.build.js''"
    by (simp add: build_eval)
  have f: "fileFields ?h ''/app/sern.build.js'' = [''format'' \<mapsto> JStr ''cjs'']"
    by (simp add: fileFields_def exampleHost_def)
  have n: "nodeEnv ?h v = Some ''production''" for v
    by (simp add: exampleHost_def)
  have "getProp cfg ''mode'' = JStr ''production'' \<and> getProp cfg ''format'' = JStr ''cjs''"
    using file_over_cli_over_defaults [OF b [unfolded r] p refl refl]
    unfolding f n by simp
  then show ?thesis
    by (simp add: resolvedField_def b r)
qed

text \<open>
  With \<open>--mode production\<close> on the CLI and \<open>mode: 'development'\<close> in the config file
  (and no \<open>NODE_ENV\<close>) the resolved mode is the file's, not the CLI's: the claim as first
  stated fails there.
\<close>

theorem cli_flag_loses_to_file_counterexample:
  "resolvedField (exampleHost (Some [''mode'' \<mapsto> JStr ''development'']) None)
      [''mode'' \<mapsto> JStr ''production''] ''mode'' = Inr (JStr ''development'')"
  by (simp add: resolvedField_def build_eval)

text \<open>
  C8. If the mode that the resolution arrives at is neither \<open>development\<close> nor
  \<open>production\<close>, \<open>build\<close> ends with the assertion failure of line 194, and nothing it
  has done up to then writes a file, creates a directory or calls the bundling engine.
\<close>

theorem invalid_mode_fails_first:
  assumes "build_resolve h options = (es, Inr (language, buildConfig))"
    and "getProp buildConfig ''mode'' \<noteq> JStr ''development''"
    and "getProp buildConfig ''mode'' \<noteq> JStr ''production''"
  shows "build h options = (es, Inl AssertionError) \<and> filter touches es = []"
proof -
  have "filter touches es = []"
    using quiet_build_resolve [of h options] assms(1) by (simp add: quiet_def)
  moreover have "build h options = (es, Inl AssertionError)"
    using assms by (simp add: build_def and_then_def assertMode_def throw_def)
  ultimately show ?thesis by simp
qed

theorem invalid_mode_fails_first_witness:
  "build (exampleHost None (Some ''staging'')) [''mode'' \<mapsto> JStr ''production''] =
     ([Console ''EXPERIMENTAL: This API has not been stabilized. add -W or --suppress-warnings flag to suppress'',
       Console ''No build config found, defaulting'',
       ConfigDotenv (JStr ''.env''),
       Console ''NODE_ENV: Found NODE_ENV variable, setting `mode` to this.''],
      Inl AssertionError)"
  using invalid_mode_fails_first [of "exampleHost None (Some ''staging'')"
      "[''mode'' \<mapsto> JStr ''production'']"
      "[Console ''EXPERIMENTAL: This API has not been stabilized. add -W or --suppress-warnings flag to suppress'',
       Console ''No build config found, defaulting'',
       ConfigDotenv (JStr ''.env''),
       Console ''NODE_ENV: Found NODE_ENV variable, setting `mode` to this.'']"
      "JStr ''typescript''"
      "(defaultBuildConfig [''mode'' \<mapsto> JStr ''production''] (JStr ''typescript''))
         (''mode'' \<mapsto> JStr ''staging'')"]
  by (simp add: build_eval)

text \<open>
  C9. For a fixed format and define map, writing the two artifacts a second time leaves
  the file system as the first time left it; what the two files hold afterwards does not
  depend on what was there before: the ambient file holds the rendered defines and, the
  two paths being different, the project configuration holds the rendered format.
\<close>

theorem artifacts_idempotent:
  "writeArtifacts tsText ambText format define ambientFilePath sernTsConfigPath
      (writeArtifacts tsText ambText format define ambientFilePath sernTsConfigPath files)
     = writeArtifacts tsText ambText format define ambientFilePath sernTsConfigPath files
   \<and> writeArtifacts tsText ambText format define ambientFilePath sernTsConfigPath files ambientFilePath
     = writeArtifacts tsText ambText format define ambientFilePath sernTsConfigPath files' ambientFilePath
   \<and> writeArtifacts tsText ambText format define ambientFilePath sernTsConfigPath files sernTsConfigPath
     = writeArtifacts tsText ambText format define ambientFilePath sernTsConfigPath files' sernTsConfigPath
   \<and> writeArtifacts tsText ambText format define ambientFilePath sernTsConfigPath files ambientFilePath
     = Some (ambText define)
   \<and> (sernTsConfigPath \<noteq> ambientFilePath \<longrightarrow>
        writeArtifacts tsText ambText format define ambientFilePath sernTsConfigPath files sernTsConfigPath
          = Some (tsText format))"
  by (simp add: writeArtifacts_def writeAmbientFile_def writeTsConfig_def writeFile_def)

theorem artifacts_idempotent_witness:
  "writeArtifacts (\<lambda>format. ''module esm'') (\<lambda>define. ''declare var __DEV__: boolean'')
      (JStr ''esm'') [''__DEV__'' \<mapsto> JStr ''true''] ''/app/.sern/ambient.d.ts''
      ''/app/.sern/tsconfig.json''
      [''/app/.sern/tsconfig.json'' \<mapsto> ''stale''] ''/app/.sern/tsconfig.json''
     = Some ''module esm''"
  using artifacts_idempotent [of "\<lambda>format. ''module esm''"
      "\<lambda>define. ''declare var __DEV__: boolean''"
      "JStr ''esm''" "[''__DEV__'' \<mapsto> JStr ''true'']" "''/app/.sern/ambient.d.ts''"
      "''/app/.sern/tsconfig.json''" "[''/app/.sern/tsconfig.json'' \<mapsto> ''stale'']"]
  by simp

text \<open>
  C10. Whenever the hook runs to its end it hands exactly one define map to the engine, and
  that map has \<open>__DEV__\<close> and \<open>__PROD__\<close>, the string forms of \<open>mode === 'development'\<close> and
  \<open>mode === 'production'\<close>, and has \<open>__VERSION__\<close> bound to a string, whatever the user's
  own defines say. The hook hands no map only when it throws, which it does only when
  \<open>defineVersion\<close> is truthy and reading the package version throws; so with
  \<open>defineVersion\<close> false a map is handed, and its \<open>__VERSION__\<close> is the string
  \<open>undefined\<close>.
\<close>

theorem define_has_mode_and_version:
  "(case handlerSetup h buildConfig ambientFilePath sernTsConfigPath of
      (es, Inl e) \<Rightarrow>
        handedDefines es = []
        \<and> truthy (getProp buildConfig ''defineVersion'') \<and> packageVersion h = Inl e
    | (es, Inr u) \<Rightarrow>
        (\<exists>define. handedDefines es = [define]
          \<and> define ''__DEV__''
              = Some (JStr (bool_string (getProp buildConfig ''mode'' = JStr ''development'')))
          \<and> define ''__PROD__''
              = Some (JStr (bool_string (getProp buildConfig ''mode'' = JStr ''production'')))
          \<and> (\<exists>version. define ''__VERSION__'' = Some (JStr version))
          \<and> (\<not> truthy (getProp buildConfig ''defineVersion'')
               \<longrightarrow> define ''__VERSION__'' = Some (JStr ''undefined''))))"
  using handlerDefine_keys [where h = h and buildConfig = buildConfig]
  by (simp add: handlerSetup_effects split: sum.splits)

theorem define_has_mode_and_version_witness:
  "map (\<lambda>define. (define ''FLAG'', define ''__DEV__'', define ''__PROD__'', define ''__VERSION__''))
     (handedDefines (fst (handlerSetup (exampleHost None None)
        [''mode'' \<mapsto> JStr ''production'', ''defineVersion'' \<mapsto> JBool False,
         ''define'' \<mapsto> JObj [''__VERSION__'' \<mapsto> JStr ''1'', ''FLAG'' \<mapsto> JStr ''0'']]
        ''/app/.sern/ambient.d.ts'' ''/app/.sern/tsconfig.json'')))
     = [(Some (JStr ''0''), Some (JStr ''false''), Some (JStr ''true''),
         Some (JStr ''undefined''))]"
  using define_has_mode_and_version [where h = "exampleHost None None" and buildConfig =
      "[''mode'' \<mapsto> JStr ''production'', ''defineVersion'' \<mapsto> JBool False,
       ''define'' \<mapsto> JObj [''__VERSION__'' \<mapsto> JStr ''1'', ''FLAG'' \<mapsto> JStr ''0'']]"
      and ambientFilePath = "''/app/.sern/ambient.d.ts''"
      and sernTsConfigPath = "''/app/.sern/tsconfig.json''"]
  by (simp add: handlerSetup_effects handlerDefine_def getProp_def coalesce_def bool_string_def)

end
